theory Spec2Isabelle
  imports Complex_Main
begin

section \<open>Axial point groups of netket.utils.group.axial\<close>

text \<open>
  The module builds symmetry operations (a 3x3 linear part and an optional translation)
  and ordered groups of them. Numbers are modelled as real numbers: the float arithmetic
  of numpy is idealised, so \<open>cos\<close>, \<open>sin\<close> and \<open>sqrt\<close> are exact. Arrays given as axis,
  translation or origin have three components (type \<open>vec3\<close>); only \<open>reflection\<close> looks
  at the number of components of its argument, so it takes a list. The one float value
  the model keeps apart is NaN: dividing a zero array by its zero norm gives NaN
  components in numpy, and the builders then fail (see \<open>unit_vector\<close> below).
\<close>

subsection \<open>Arrays\<close>

type_synonym vec3 = "real \<times> real \<times> real"
type_synonym mat3 = "vec3 \<times> vec3 \<times> vec3"

definition eye3 :: mat3 where
  "eye3 = ((1, 0, 0), (0, 1, 0), (0, 0, 1))"

fun dot :: "vec3 \<Rightarrow> vec3 \<Rightarrow> real" where
  "dot (a0, a1, a2) (b0, b1, b2) = a0 * b0 + a1 * b1 + a2 * b2"

fun linalg_norm :: "vec3 \<Rightarrow> real" where
  "linalg_norm (a0, a1, a2) = sqrt (a0 * a0 + a1 * a1 + a2 * a2)"

fun vec_div :: "vec3 \<Rightarrow> real \<Rightarrow> vec3" where
  "vec_div (a0, a1, a2) s = (a0 / s, a1 / s, a2 / s)"

fun vec_scale :: "real \<Rightarrow> vec3 \<Rightarrow> vec3" where
  "vec_scale s (a0, a1, a2) = (s * a0, s * a1, s * a2)"

fun vec_add :: "vec3 \<Rightarrow> vec3 \<Rightarrow> vec3" where
  "vec_add (a0, a1, a2) (b0, b1, b2) = (a0 + b0, a1 + b1, a2 + b2)"

fun vec_sub :: "vec3 \<Rightarrow> vec3 \<Rightarrow> vec3" where
  "vec_sub (a0, a1, a2) (b0, b1, b2) = (a0 - b0, a1 - b1, a2 - b2)"

fun cross :: "vec3 \<Rightarrow> vec3 \<Rightarrow> vec3" where
  "cross (a0, a1, a2) (b0, b1, b2) =
     (a1 * b2 - a2 * b1, a2 * b0 - a0 * b2, a0 * b1 - a1 * b0)"

text \<open>\<open>np.cross(M, v)\<close> with a 3x3 first argument takes the cross product of each row.\<close>

fun cross_rows :: "mat3 \<Rightarrow> vec3 \<Rightarrow> mat3" where
  "cross_rows (r0, r1, r2) v = (cross r0 v, cross r1 v, cross r2 v)"

fun outer :: "vec3 \<Rightarrow> vec3 \<Rightarrow> mat3" where
  "outer (a0, a1, a2) b = (vec_scale a0 b, vec_scale a1 b, vec_scale a2 b)"

fun mat_scale :: "real \<Rightarrow> mat3 \<Rightarrow> mat3" where
  "mat_scale s (r0, r1, r2) = (vec_scale s r0, vec_scale s r1, vec_scale s r2)"

fun mat_add :: "mat3 \<Rightarrow> mat3 \<Rightarrow> mat3" where
  "mat_add (r0, r1, r2) (q0, q1, q2) = (vec_add r0 q0, vec_add r1 q1, vec_add r2 q2)"

fun mat_sub :: "mat3 \<Rightarrow> mat3 \<Rightarrow> mat3" where
  "mat_sub (r0, r1, r2) (q0, q1, q2) = (vec_sub r0 q0, vec_sub r1 q1, vec_sub r2 q2)"

fun mat_neg :: "mat3 \<Rightarrow> mat3" where
  "mat_neg M = mat_scale (- 1) M"

fun matvec :: "mat3 \<Rightarrow> vec3 \<Rightarrow> vec3" where
  "matvec (r0, r1, r2) v = (dot r0 v, dot r1 v, dot r2 v)"

fun transpose3 :: "mat3 \<Rightarrow> mat3" where
  "transpose3 ((a00, a01, a02), (a10, a11, a12), (a20, a21, a22)) =
     ((a00, a10, a20), (a01, a11, a21), (a02, a12, a22))"

fun matmul :: "mat3 \<Rightarrow> mat3 \<Rightarrow> mat3" where
  "matmul (r0, r1, r2) B =
     (matvec (transpose3 B) r0, matvec (transpose3 B) r1, matvec (transpose3 B) r2)"

definition radians :: "real \<Rightarrow> real" where
  "radians x = x * pi / 180"

text \<open>\<open>np.isclose(a, b)\<close> with numpy's default tolerances \<open>rtol = 1e-5\<close>, \<open>atol = 1e-8\<close>.\<close>

definition isclose :: "real \<Rightarrow> real \<Rightarrow> bool" where
  "isclose a b = (\<bar>a - b\<bar> \<le> 1 / 10 ^ 8 + 1 / 10 ^ 5 * \<bar>b\<bar>)"

subsection \<open>Operations, groups and errors\<close>

text \<open>
  \<open>PGSymmetry(W)\<close> and \<open>PGSymmetry(W, w)\<close> are recorded with the arguments of the call:
  the translation is \<open>None\<close> when the call gives none.
\<close>

datatype element = Identity | PGSymmetry mat3 "vec3 option"

record point_group =
  elems :: "element list"
  ndim :: nat

datatype error = ValueError string | AssertionError | ZeroDivisionError

text \<open>Python's \<open>x / n\<close> for an integer \<open>n\<close>.\<close>

definition truediv :: "real \<Rightarrow> int \<Rightarrow> error + real" where
  "truediv x n = (if n = 0 then Inl ZeroDivisionError else Inr (x / real_of_int n))"

text \<open>\<open>range(a, b)\<close>.\<close>

definition range_py :: "int \<Rightarrow> int \<Rightarrow> int list" where
  "range_py a b = [a..b - 1]"

text \<open>
  A list comprehension \<open>[f(i) for i in xs]\<close> whose body may raise: the body runs once
  for each element, in order, and the first error ends the comprehension.
\<close>

fun list_comp :: "('a \<Rightarrow> error + 'b) \<Rightarrow> 'a list \<Rightarrow> error + 'b list" where
  "list_comp f [] = Inr []"
| "list_comp f (x # xs) =
     (case f x of
        Inl e \<Rightarrow> Inl e
      | Inr y \<Rightarrow> (case list_comp f xs of Inl e \<Rightarrow> Inl e | Inr ys \<Rightarrow> Inr (y # ys)))"

text \<open>
  Modelled from the spec: the group composition operator \<open>@\<close> of the group container,
  which is not part of this module. The elements of \<open>A @ B\<close> are all products of an
  element of \<open>A\<close> with an element of \<open>B\<close>; the product of two operations belongs to the
  operation algebra and is a parameter.
\<close>

definition group_matmul ::
  "(element \<Rightarrow> element \<Rightarrow> element) \<Rightarrow> point_group \<Rightarrow> point_group \<Rightarrow> point_group" where
  "group_matmul mul A B =
     \<lparr>elems = concat (map (\<lambda>a. map (\<lambda>b. mul a b) (elems B)) (elems A)), ndim = ndim A\<rparr>"

text \<open>
  Modelled from the spec: the product of two operations, which the operation algebra
  provides and this module does not contain. An operation is an affine map with a linear
  part \<open>W\<close> and a translation \<open>w\<close> (zero for a purely linear operation), \<open>Identity\<close> is
  the identity map, and the product is the composition of the maps. The constructors
  below take the product as a parameter; this one instantiates it.
\<close>

fun translation_of :: "vec3 option \<Rightarrow> vec3" where
  "translation_of None = (0, 0, 0)"
| "translation_of (Some w) = w"

fun op_matmul :: "element \<Rightarrow> element \<Rightarrow> element" where
  "op_matmul Identity b = b"
| "op_matmul (PGSymmetry W1 w1) Identity = PGSymmetry W1 w1"
| "op_matmul (PGSymmetry W1 w1) (PGSymmetry W2 w2) =
     PGSymmetry (matmul W1 W2)
       (Some (vec_add (matvec W1 (translation_of w2)) (translation_of w1)))"

subsection \<open>Operation builders\<close>

text \<open>
  \<open>np.asarray(v) / np.linalg.norm(v)\<close>. For a zero array numpy computes \<open>0 / 0\<close> in every
  component, which is NaN and raises nothing; \<open>None\<close> stands for that array of NaN.
\<close>

definition unit_vector :: "vec3 \<Rightarrow> vec3 option" where
  "unit_vector v = (if linalg_norm v = 0 then None else Some (vec_div v (linalg_norm v)))"

text \<open>
  The constructor \<open>PGSymmetry\<close> belongs to the operation algebra, not to this module. It
  rejects a linear part that is not orthogonal with a \<open>ValueError\<close>. Every matrix a
  builder computes from an array of NaN has NaN in all entries and is rejected; the
  matrices computed from a unit vector are orthogonal (shown below) and accepted.
\<close>

definition not_orthogonal :: error where
  "not_orthogonal = ValueError ''W must be an orthogonal matrix''"

definition rotation :: "real \<Rightarrow> vec3 \<Rightarrow> error + element" where
  "rotation angle axis =
     (let angle = radians angle
      in case unit_vector axis of
           None \<Rightarrow> Inl not_orthogonal
         | Some axis \<Rightarrow>
             Inr (PGSymmetry
                   (mat_add
                      (mat_add (mat_scale (cos angle) eye3)
                               (mat_scale (sin angle) (cross_rows eye3 axis)))
                      (mat_scale (1 - cos angle) (outer axis axis)))
                   None))"

definition screw :: "real \<Rightarrow> vec3 \<Rightarrow> vec3 \<Rightarrow> error + element" where
  "screw angle transl origin =
     (let angle = radians angle
      in case unit_vector transl of
           None \<Rightarrow> Inl not_orthogonal
         | Some axis \<Rightarrow>
             (let W = mat_add
                        (mat_add (mat_scale (cos angle) eye3)
                                 (mat_scale (sin angle) (cross_rows eye3 axis)))
                        (mat_scale (1 - cos angle) (outer axis axis));
                  w = vec_add transl (matvec (mat_sub eye3 W) origin)
              in Inr (PGSymmetry W (Some w))))"

definition inversion :: element where
  "inversion = PGSymmetry (mat_neg eye3) None"

definition inversion_group :: point_group where
  "inversion_group = \<lparr>elems = [Identity, inversion], ndim = 3\<rparr>"

definition reflection :: "real list \<Rightarrow> error + element" where
  "reflection axis =
     (if length axis \<noteq> 3
      then Inl (ValueError (''The axis must be a 3 component vector.'' @
                            ''If you want reflections in 2 dimensions, use '' @
                            ''nk.utils.group.planar.reflection instead.''))
      else (case unit_vector (axis ! 0, axis ! 1, axis ! 2) of
              None \<Rightarrow> Inl not_orthogonal
            | Some axis \<Rightarrow>
                Inr (PGSymmetry (mat_sub eye3 (mat_scale 2 (outer axis axis))) None)))"

definition reflection_group :: "real list \<Rightarrow> error + point_group" where
  "reflection_group axis =
     (case reflection axis of
        Inl e \<Rightarrow> Inl e
      | Inr r \<Rightarrow> Inr \<lparr>elems = [Identity, r], ndim = 3\<rparr>)"

definition glide :: "vec3 \<Rightarrow> vec3 \<Rightarrow> vec3 \<Rightarrow> error + element" where
  "glide axis transl origin =
     (if \<not> isclose (dot axis transl) 0 then Inl AssertionError
      else (case unit_vector axis of
              None \<Rightarrow> Inl not_orthogonal
            | Some axis \<Rightarrow>
                (let W = mat_sub eye3 (mat_scale 2 (outer axis axis));
                     w = vec_add transl (matvec (mat_sub eye3 W) origin)
                 in Inr (PGSymmetry W (Some w)))))"

definition glide_group :: "vec3 \<Rightarrow> vec3 \<Rightarrow> vec3 \<Rightarrow> error + point_group" where
  "glide_group axis transl origin =
     (case glide axis transl origin of
        Inl e \<Rightarrow> Inl e
      | Inr g \<Rightarrow> Inr \<lparr>elems = [Identity, g], ndim = 3\<rparr>)"

definition rotoreflection :: "real \<Rightarrow> vec3 \<Rightarrow> error + element" where
  "rotoreflection angle axis =
     (let angle = radians angle
      in case unit_vector axis of
           None \<Rightarrow> Inl not_orthogonal
         | Some axis \<Rightarrow>
             (let rot_matrix =
                    mat_add
                      (mat_add (mat_scale (cos angle) eye3)
                               (mat_scale (sin angle) (cross_rows eye3 axis)))
                      (mat_scale (1 - cos angle) (outer axis axis));
                  refl_matrix = mat_sub eye3 (mat_scale 2 (outer axis axis))
              in Inr (PGSymmetry (matmul refl_matrix rot_matrix) None)))"

subsection \<open>Group constructors\<close>

text \<open>The components of a 3-component array, as \<open>len\<close> and indexing see them.\<close>

fun components :: "vec3 \<Rightarrow> real list" where
  "components (a0, a1, a2) = [a0, a1, a2]"

definition C :: "int \<Rightarrow> vec3 \<Rightarrow> error + point_group" where
  "C n axis =
     (case list_comp
             (\<lambda>i. case truediv 360 n of
                     Inl e \<Rightarrow> Inl e
                   | Inr q \<Rightarrow> rotation (q * real_of_int i) axis)
             (range_py 1 n) of
        Inl e \<Rightarrow> Inl e
      | Inr rs \<Rightarrow> Inr \<lparr>elems = [Identity] @ rs, ndim = 3\<rparr>)"

text \<open>
  The loop of \<open>screw_group\<close> over \<open>count(start=1)\<close>. The near-integer test
  \<open>is_approx_int\<close> of \<open>netket.utils.float\<close> is not part of this module and is a
  parameter. The loop ends when the test holds or when \<open>screw\<close> raises; where neither
  happens the function has no value, which \<open>None\<close> stands for.
\<close>

partial_function (option) screw_loop ::
  "(real \<Rightarrow> bool) \<Rightarrow> real \<Rightarrow> vec3 \<Rightarrow> vec3 \<Rightarrow> nat \<Rightarrow> element list \<Rightarrow>
   (error + element list) option" where
  "screw_loop is_approx_int angle transl origin i out =
     (if is_approx_int (real i * angle / 360) then Some (Inr out)
      else (case screw (real i * angle) (vec_scale (real i) transl) origin of
              Inl e \<Rightarrow> Some (Inl e)
            | Inr s \<Rightarrow> screw_loop is_approx_int angle transl origin (Suc i) (out @ [s])))"

definition screw_group ::
  "(real \<Rightarrow> bool) \<Rightarrow> real \<Rightarrow> vec3 \<Rightarrow> vec3 \<Rightarrow> (error + point_group) option" where
  "screw_group is_approx_int angle transl origin =
     (case screw_loop is_approx_int angle transl origin 1 [Identity] of
        None \<Rightarrow> None
      | Some (Inl e) \<Rightarrow> Some (Inl e)
      | Some (Inr out) \<Rightarrow> Some (Inr \<lparr>elems = out, ndim = 3\<rparr>))"

text \<open>
  Modelled from the spec: the near-integer test, which reports whether a number is within
  a tolerance of an integer. The tolerance is explicit here.
\<close>

definition is_approx_int_tol :: "real \<Rightarrow> real \<Rightarrow> bool" where
  "is_approx_int_tol atol x = (\<bar>x - of_int (round x)\<bar> \<le> atol)"

definition Ch ::
  "(element \<Rightarrow> element \<Rightarrow> element) \<Rightarrow> int \<Rightarrow> vec3 \<Rightarrow> error + point_group" where
  "Ch mul n axis =
     (case reflection_group (components axis) of
        Inl e \<Rightarrow> Inl e
      | Inr g \<Rightarrow> (case C n axis of Inl e \<Rightarrow> Inl e | Inr h \<Rightarrow> Inr (group_matmul mul g h)))"

definition Cv ::
  "(element \<Rightarrow> element \<Rightarrow> element) \<Rightarrow> int \<Rightarrow> vec3 \<Rightarrow> vec3 \<Rightarrow> error + point_group" where
  "Cv mul n axis axis2 =
     (if \<not> isclose (dot axis axis2) 0 then Inl AssertionError
      else (case reflection_group (components axis2) of
              Inl e \<Rightarrow> Inl e
            | Inr g \<Rightarrow>
                (case C n axis of Inl e \<Rightarrow> Inl e | Inr h \<Rightarrow> Inr (group_matmul mul g h))))"

definition S ::
  "(element \<Rightarrow> element \<Rightarrow> element) \<Rightarrow> int \<Rightarrow> vec3 \<Rightarrow> error + point_group" where
  "S mul n axis =
     (if n mod 2 = 1 then Ch mul n axis
      else (case list_comp
                   (\<lambda>i. if i mod 2 = 1
                         then (case truediv 360 n of
                                 Inl e \<Rightarrow> Inl e
                               | Inr q \<Rightarrow> rotoreflection (q * real_of_int i) axis)
                         else (case truediv 360 n of
                                 Inl e \<Rightarrow> Inl e
                               | Inr q \<Rightarrow> rotation (q * real_of_int i) axis))
                   (range_py 1 n) of
              Inl e \<Rightarrow> Inl e
            | Inr rs \<Rightarrow> Inr \<lparr>elems = [Identity] @ rs, ndim = 3\<rparr>))"

definition D ::
  "(element \<Rightarrow> element \<Rightarrow> element) \<Rightarrow> int \<Rightarrow> vec3 \<Rightarrow> vec3 \<Rightarrow> error + point_group" where
  "D mul n axis axis2 =
     (if \<not> isclose (dot axis axis2) 0 then Inl AssertionError
      else (case C 2 axis2 of
              Inl e \<Rightarrow> Inl e
            | Inr g \<Rightarrow>
                (case C n axis of Inl e \<Rightarrow> Inl e | Inr h \<Rightarrow> Inr (group_matmul mul g h))))"

definition Dh ::
  "(element \<Rightarrow> element \<Rightarrow> element) \<Rightarrow> int \<Rightarrow> vec3 \<Rightarrow> vec3 \<Rightarrow> error + point_group" where
  "Dh mul n axis axis2 =
     (case reflection_group (components axis) of
        Inl e \<Rightarrow> Inl e
      | Inr g \<Rightarrow>
          (case D mul n axis axis2 of
             Inl e \<Rightarrow> Inl e
           | Inr h \<Rightarrow> Inr (group_matmul mul g h)))"

definition Dd ::
  "(element \<Rightarrow> element \<Rightarrow> element) \<Rightarrow> int \<Rightarrow> vec3 \<Rightarrow> vec3 \<Rightarrow> error + point_group" where
  "Dd mul n axis axis2 =
     (if \<not> isclose (dot axis axis2) 0 then Inl AssertionError
      else (case reflection_group (components axis2) of
              Inl e \<Rightarrow> Inl e
            | Inr g \<Rightarrow>
                (case S mul (2 * n) axis of
                   Inl e \<Rightarrow> Inl e
                 | Inr h \<Rightarrow> Inr (group_matmul mul g h))))"

subsection \<open>Notions used by the properties\<close>

definition orthogonal3 :: "mat3 \<Rightarrow> bool" where
  "orthogonal3 W = (matmul (transpose3 W) W = eye3)"

fun mat_power :: "mat3 \<Rightarrow> nat \<Rightarrow> mat3" where
  "mat_power W 0 = eye3"
| "mat_power W (Suc k) = matmul W (mat_power W k)"

text \<open>
  The Rodrigues matrix and the mirror matrix that the builders write out, for a unit
  axis \<open>a\<close> and an angle \<open>t\<close> in radians.
\<close>

definition rot_matrix :: "real \<Rightarrow> vec3 \<Rightarrow> mat3" where
  "rot_matrix t a =
     mat_add (mat_add (mat_scale (cos t) eye3) (mat_scale (sin t) (cross_rows eye3 a)))
             (mat_scale (1 - cos t) (outer a a))"

definition refl_matrix :: "vec3 \<Rightarrow> mat3" where
  "refl_matrix a = mat_sub eye3 (mat_scale 2 (outer a a))"

text \<open>
  Rodrigues' rotation formula as the specification writes it,
  \<open>cos t * I + sin t * [a]\<^sub>x + (1 - cos t) * (a \<otimes> a)\<close>, with the cross-product matrix
  \<open>[a]\<^sub>x\<close> written out.
\<close>

fun cross_product_matrix :: "vec3 \<Rightarrow> mat3" where
  "cross_product_matrix (a0, a1, a2) = ((0, - a2, a1), (a2, 0, - a0), (- a1, a0, 0))"

definition rodrigues :: "real \<Rightarrow> vec3 \<Rightarrow> mat3" where
  "rodrigues t a =
     mat_add (mat_add (mat_scale (cos t) eye3) (mat_scale (sin t) (cross_product_matrix a)))
             (mat_scale (1 - cos t) (outer a a))"

section \<open>Comprehensions\<close>

lemma list_comp_total:
  "(\<And>x. x \<in> set xs \<Longrightarrow> f x = Inr (g x)) \<Longrightarrow> list_comp f xs = Inr (map g xs)"
  by (induction xs) auto

lemma list_comp_cong:
  "(\<And>x. x \<in> set xs \<Longrightarrow> f x = g x) \<Longrightarrow> list_comp f xs = list_comp g xs"
  by (induction xs) (auto split: sum.splits)

lemma list_comp_Inr_iff: "list_comp f xs = Inr ys \<longleftrightarrow> map Inr ys = map f xs"
proof (induction xs arbitrary: ys)
  case Nil
  show ?case by auto
next
  case (Cons x xs)
  show ?case
  proof (cases "f x")
    case (Inl e)
    then show ?thesis by (cases ys) auto
  next
    case (Inr y)
    show ?thesis
    proof (cases "list_comp f xs")
      case (Inl e)
      with Cons [of "tl ys"] Inr show ?thesis by (cases ys) auto
    next
      case inr: (Inr zs)
      with Cons [of zs] Cons [of "tl ys"] Inr show ?thesis by (cases ys) auto
    qed
  qed
qed

lemma list_comp_all_fail:
  "xs \<noteq> [] \<Longrightarrow> (\<And>x. x \<in> set xs \<Longrightarrow> f x = Inl e) \<Longrightarrow> list_comp f xs = Inl e"
  by (cases xs) auto

lemma range_py_nonzero: "i \<in> set (range_py 1 n) \<Longrightarrow> n \<noteq> 0"
  by (auto simp: range_py_def)

lemma range_py_empty: "n \<le> 1 \<Longrightarrow> range_py 1 n = []"
  by (simp add: range_py_def)

lemma range_py_nonempty: "2 \<le> n \<Longrightarrow> range_py 1 n \<noteq> []"
  by (simp add: range_py_def upto.simps)

lemma length_range_py: "length (range_py 1 n) = nat (n - 1)"
  by (simp add: range_py_def)

section \<open>Unit vectors and the values of the builders\<close>

lemma linalg_norm_zero_iff: "linalg_norm v = 0 \<longleftrightarrow> v = (0, 0, 0)"
proof -
  obtain x y z where v: "v = (x, y, z)" by (cases v)
  have "x * x + y * y + z * z = 0 \<longleftrightarrow> x = 0 \<and> y = 0 \<and> z = 0"
  proof
    assume q0: "x * x + y * y + z * z = 0"
    have "x * x = 0" using q0 by (smt (verit) zero_le_square)
    moreover have "y * y = 0" using q0 by (smt (verit) zero_le_square)
    moreover have "z * z = 0" using q0 by (smt (verit) zero_le_square)
    ultimately show "x = 0 \<and> y = 0 \<and> z = 0" by simp
  qed simp
  then show ?thesis by (simp add: v)
qed

lemma unit_vector_zero: "unit_vector (0, 0, 0) = None"
  by (simp add: unit_vector_def)

lemma unit_vector_nonzero:
  "v \<noteq> (0, 0, 0) \<Longrightarrow> unit_vector v = Some (vec_div v (linalg_norm v))"
  by (simp add: unit_vector_def linalg_norm_zero_iff)

lemma vec_scale_nonzero: "s \<noteq> 0 \<Longrightarrow> v \<noteq> (0, 0, 0) \<Longrightarrow> vec_scale s v \<noteq> (0, 0, 0)"
  by (cases v) auto

lemma vec_scale_zero: "vec_scale s (0, 0, 0) = (0, 0, 0)"
  by simp

lemma rotation_value:
  "axis \<noteq> (0, 0, 0) \<Longrightarrow>
   rotation angle axis =
     Inr (PGSymmetry (rot_matrix (radians angle) (vec_div axis (linalg_norm axis))) None)"
  by (simp add: rotation_def rot_matrix_def Let_def unit_vector_nonzero)

lemma rotation_zero: "rotation angle (0, 0, 0) = Inl not_orthogonal"
  by (simp add: rotation_def unit_vector_zero)

lemma rotoreflection_value:
  "axis \<noteq> (0, 0, 0) \<Longrightarrow>
   rotoreflection angle axis =
     Inr (PGSymmetry (matmul (refl_matrix (vec_div axis (linalg_norm axis)))
                             (rot_matrix (radians angle) (vec_div axis (linalg_norm axis))))
          None)"
  by (simp add: rotoreflection_def rot_matrix_def refl_matrix_def Let_def unit_vector_nonzero)

lemma rotoreflection_zero: "rotoreflection angle (0, 0, 0) = Inl not_orthogonal"
  by (simp add: rotoreflection_def unit_vector_zero)

lemma screw_value:
  "transl \<noteq> (0, 0, 0) \<Longrightarrow>
   screw angle transl origin =
     Inr (PGSymmetry (rot_matrix (radians angle) (vec_div transl (linalg_norm transl)))
       (Some (vec_add transl
          (matvec (mat_sub eye3
             (rot_matrix (radians angle) (vec_div transl (linalg_norm transl)))) origin))))"
  by (simp add: screw_def rot_matrix_def Let_def unit_vector_nonzero)

lemma screw_zero: "screw angle (0, 0, 0) origin = Inl not_orthogonal"
  by (simp add: screw_def unit_vector_zero)

lemma reflection_value:
  "axis \<noteq> (0, 0, 0) \<Longrightarrow>
   reflection (components axis) =
     Inr (PGSymmetry (refl_matrix (vec_div axis (linalg_norm axis))) None)"
  by (cases axis) (simp add: reflection_def refl_matrix_def unit_vector_nonzero)

lemma reflection_zero: "reflection (components (0, 0, 0)) = Inl not_orthogonal"
  by (simp add: reflection_def unit_vector_zero)

lemma reflection_group_value:
  "axis \<noteq> (0, 0, 0) \<Longrightarrow>
   reflection_group (components axis) =
     Inr \<lparr>elems = [Identity, PGSymmetry (refl_matrix (vec_div axis (linalg_norm axis))) None],
          ndim = 3\<rparr>"
  by (simp add: reflection_group_def reflection_value)

lemma glide_value:
  "isclose (dot axis transl) 0 \<Longrightarrow> axis \<noteq> (0, 0, 0) \<Longrightarrow>
   glide axis transl origin =
     Inr (PGSymmetry (refl_matrix (vec_div axis (linalg_norm axis)))
       (Some (vec_add transl
          (matvec (mat_sub eye3 (refl_matrix (vec_div axis (linalg_norm axis)))) origin))))"
  by (simp add: glide_def refl_matrix_def Let_def unit_vector_nonzero)

lemma isclose_zero: "isclose 0 0"
  by (simp add: isclose_def)

lemma dot_zero_left: "dot (0, 0, 0) v = 0"
  by (cases v) simp

lemma not_close_nonzero: "\<not> isclose (dot axis v) 0 \<Longrightarrow> axis \<noteq> (0, 0, 0)"
  using isclose_zero dot_zero_left [of v] by auto

lemma rot_matrix_rodrigues: "rot_matrix t a = rodrigues t a"
  by (cases a) (simp add: rot_matrix_def rodrigues_def eye3_def)

section \<open>The constructors built from comprehensions\<close>

lemma C_comprehension:
  "C n axis =
     (case list_comp (\<lambda>i. rotation (360 / real_of_int n * real_of_int i) axis)
             (range_py 1 n) of
        Inl e \<Rightarrow> Inl e
      | Inr rs \<Rightarrow> Inr \<lparr>elems = Identity # rs, ndim = 3\<rparr>)"
proof -
  have "list_comp (\<lambda>i. case truediv 360 n of Inl e \<Rightarrow> Inl e
                   | Inr q \<Rightarrow> rotation (q * real_of_int i) axis) (range_py 1 n)
        = list_comp (\<lambda>i. rotation (360 / real_of_int n * real_of_int i) axis) (range_py 1 n)"
    by (rule list_comp_cong) (auto simp: truediv_def dest: range_py_nonzero)
  then show ?thesis by (simp add: C_def split: sum.splits)
qed

lemma C_value:
  assumes "axis \<noteq> (0, 0, 0)"
  shows "C n axis =
     Inr \<lparr>elems = Identity #
             map (\<lambda>i. PGSymmetry
                        (rot_matrix (radians (360 / real_of_int n * real_of_int i))
                           (vec_div axis (linalg_norm axis))) None)
                 (range_py 1 n),
          ndim = 3\<rparr>"
proof -
  have "list_comp (\<lambda>i. rotation (360 / real_of_int n * real_of_int i) axis) (range_py 1 n)
        = Inr (map (\<lambda>i. PGSymmetry
                        (rot_matrix (radians (360 / real_of_int n * real_of_int i))
                           (vec_div axis (linalg_norm axis))) None) (range_py 1 n))"
    by (rule list_comp_total) (simp add: rotation_value assms)
  then show ?thesis by (simp add: C_comprehension)
qed

lemma C_small: "n \<le> 1 \<Longrightarrow> C n axis = Inr \<lparr>elems = [Identity], ndim = 3\<rparr>"
  by (simp add: C_comprehension range_py_empty)

lemma C_zero_axis: "2 \<le> n \<Longrightarrow> C n (0, 0, 0) = Inl not_orthogonal"
proof -
  assume "2 \<le> n"
  then have "list_comp (\<lambda>i. rotation (360 / real_of_int n * real_of_int i) (0, 0, 0))
               (range_py 1 n) = Inl not_orthogonal"
    by (intro list_comp_all_fail range_py_nonempty) (simp_all add: rotation_zero)
  then show ?thesis by (simp add: C_comprehension)
qed

lemma C_succeeds:
  assumes "axis \<noteq> (0, 0, 0)"
  shows "\<exists>c. C n axis = Inr c \<and> ndim c = 3 \<and> length (elems c) = nat (max 1 n)"
proof -
  have "1 + nat (n - 1) = nat (max 1 n)" by (simp add: max_def) arith
  then show ?thesis by (simp add: C_value [OF assms] length_range_py)
qed

lemma S_even_comprehension:
  assumes "n mod 2 \<noteq> 1"
  shows "S mul n axis =
     (case list_comp
             (\<lambda>i. if i mod 2 = 1
                   then rotoreflection (360 / real_of_int n * real_of_int i) axis
                   else rotation (360 / real_of_int n * real_of_int i) axis)
             (range_py 1 n) of
        Inl e \<Rightarrow> Inl e
      | Inr rs \<Rightarrow> Inr \<lparr>elems = Identity # rs, ndim = 3\<rparr>)"
proof -
  have "list_comp
          (\<lambda>i. if i mod 2 = 1
                then (case truediv 360 n of
                        Inl e \<Rightarrow> Inl e
                      | Inr q \<Rightarrow> rotoreflection (q * real_of_int i) axis)
                else (case truediv 360 n of
                        Inl e \<Rightarrow> Inl e
                      | Inr q \<Rightarrow> rotation (q * real_of_int i) axis))
          (range_py 1 n)
        = list_comp
          (\<lambda>i. if i mod 2 = 1
                then rotoreflection (360 / real_of_int n * real_of_int i) axis
                else rotation (360 / real_of_int n * real_of_int i) axis)
          (range_py 1 n)"
    by (rule list_comp_cong) (auto simp: truediv_def dest: range_py_nonzero)
  with assms show ?thesis by (simp add: S_def split: sum.splits)
qed

lemma S_even_succeeds:
  assumes "n mod 2 \<noteq> 1" and "axis \<noteq> (0, 0, 0)"
  shows "\<exists>s. S mul n axis = Inr s \<and> ndim s = 3 \<and> length (elems s) = nat (max 1 n)"
proof -
  let ?a = "vec_div axis (linalg_norm axis)"
  let ?g = "\<lambda>i. if i mod 2 = 1
      then PGSymmetry (matmul (refl_matrix ?a)
             (rot_matrix (radians (360 / real_of_int n * real_of_int i)) ?a)) None
      else PGSymmetry (rot_matrix (radians (360 / real_of_int n * real_of_int i)) ?a) None"
  have "list_comp
          (\<lambda>i. if i mod 2 = 1
                then rotoreflection (360 / real_of_int n * real_of_int i) axis
                else rotation (360 / real_of_int n * real_of_int i) axis)
          (range_py 1 n) = Inr (map ?g (range_py 1 n))"
    by (rule list_comp_total) (simp add: rotation_value rotoreflection_value assms(2))
  moreover have "1 + nat (n - 1) = nat (max 1 n)" by (simp add: max_def) arith
  ultimately show ?thesis
    by (simp add: S_even_comprehension [OF assms(1)] length_range_py)
qed

lemma length_group_matmul:
  "length (elems (group_matmul mul A B)) = length (elems A) * length (elems B)"
  by (simp add: group_matmul_def length_concat comp_def sum_list_triv)

lemma ndim_group_matmul: "ndim (group_matmul mul A B) = ndim A"
  by (simp add: group_matmul_def)

section \<open>The loop of screw_group\<close>

lemma screw_loop_closes:
  assumes "1 \<le> i" "i \<le> k" "approx (real k * angle / 360)"
    and "\<And>j. i \<le> j \<Longrightarrow> j < k \<Longrightarrow> \<not> approx (real j * angle / 360)"
    and "transl \<noteq> (0, 0, 0)"
  shows "\<exists>rs. screw_loop approx angle transl origin i out = Some (Inr (out @ rs)) \<and>
              map Inr rs =
                map (\<lambda>j. screw (real j * angle) (vec_scale (real j) transl) origin) [i..<k]"
  using assms(1,2,4)
proof (induction "k - i" arbitrary: i out)
  case 0
  then have "i = k" by simp
  with assms(3) show ?case by (subst screw_loop.simps) simp
next
  case (Suc d)
  then have lt: "i < k" by simp
  with Suc.prems have no: "\<not> approx (real i * angle / 360)" by simp
  from Suc.prems(1) have "real i \<noteq> 0" by simp
  then have "vec_scale (real i) transl \<noteq> (0, 0, 0)"
    using assms(5) by (rule vec_scale_nonzero)
  then obtain s where s: "screw (real i * angle) (vec_scale (real i) transl) origin = Inr s"
    using screw_value by blast
  have "\<exists>rs. screw_loop approx angle transl origin (Suc i) (out @ [s]) =
              Some (Inr ((out @ [s]) @ rs)) \<and>
            map Inr rs =
              map (\<lambda>j. screw (real j * angle) (vec_scale (real j) transl) origin) [Suc i..<k]"
    using Suc.hyps(2) lt Suc.prems by (intro Suc.hyps(1)) auto
  then obtain rs where rs:
    "screw_loop approx angle transl origin (Suc i) (out @ [s]) = Some (Inr ((out @ [s]) @ rs))"
    "map Inr rs =
       map (\<lambda>j. screw (real j * angle) (vec_scale (real j) transl) origin) [Suc i..<k]"
    by blast
  have "screw_loop approx angle transl origin i out = Some (Inr (out @ s # rs))"
    using no s rs(1) by (subst screw_loop.simps) simp
  moreover have "map Inr (s # rs) =
      map (\<lambda>j. screw (real j * angle) (vec_scale (real j) transl) origin) [i..<k]"
    using lt s rs(2) by (simp add: upt_conv_Cons)
  ultimately show ?case by blast
qed

lemma screw_loop_first:
  "approx (real i * angle / 360) \<Longrightarrow>
   screw_loop approx angle transl origin i out = Some (Inr out)"
  by (subst screw_loop.simps) simp

lemma screw_loop_zero_translation:
  "\<not> approx (real i * angle / 360) \<Longrightarrow>
   screw_loop approx angle (0, 0, 0) origin i out = Some (Inl not_orthogonal)"
  by (subst screw_loop.simps) (simp add: screw_zero)

lemma group_of_least_index:
  assumes "1 \<le> k" "approx (real k * angle / 360)"
    and "\<And>j. 1 \<le> j \<Longrightarrow> j < k \<Longrightarrow> \<not> approx (real j * angle / 360)"
    and "transl \<noteq> (0, 0, 0) \<or> k = 1"
  shows "\<exists>g rs. screw_group approx angle transl origin = Some (Inr g) \<and>
           elems g = Identity # rs \<and>
           map Inr rs =
             map (\<lambda>i. screw (real i * angle) (vec_scale (real i) transl) origin) [1..<k] \<and>
           length (elems g) = k \<and> ndim g = 3"
proof (cases "k = 1")
  case True
  with assms(2) have "screw_loop approx angle transl origin 1 [Identity] = Some (Inr [Identity])"
    by (intro screw_loop_first) simp
  with True show ?thesis by (simp add: screw_group_def)
next
  case False
  with assms(4) have nz: "transl \<noteq> (0, 0, 0)" by simp
  from screw_loop_closes [of 1 k approx angle transl origin "[Identity]"] assms(1,2,3) nz
  obtain rs where rs:
    "screw_loop approx angle transl origin 1 [Identity] = Some (Inr ([Identity] @ rs))"
    "map Inr rs =
       map (\<lambda>j. screw (real j * angle) (vec_scale (real j) transl) origin) [1..<k]"
    by auto
  from rs(2) have "length (map Inr rs :: (error + element) list) = length [1..<k]"
    by simp
  then have len: "length rs = k - 1" by simp
  from rs(1) have "screw_group approx angle transl origin =
      Some (Inr \<lparr>elems = Identity # rs, ndim = 3\<rparr>)"
    by (simp add: screw_group_def)
  with rs(2) len assms(1) show ?thesis by simp
qed

lemma screw_group_returns:
  assumes "\<exists>m\<ge>1. approx (real m * angle / 360)" and "transl \<noteq> (0, 0, 0)"
  shows "\<exists>g. screw_group approx angle transl origin = Some (Inr g)"
proof -
  from assms(1) have ex: "\<exists>k. 1 \<le> k \<and> approx (real k * angle / 360)" by blast
  define k where "k = (LEAST k. 1 \<le> k \<and> approx (real k * angle / 360))"
  have k: "1 \<le> k \<and> approx (real k * angle / 360)"
    unfolding k_def using ex by (rule LeastI_ex)
  have least: "\<not> approx (real j * angle / 360)" if "1 \<le> j" "j < k" for j
    using that not_less_Least [of j "\<lambda>k. 1 \<le> k \<and> approx (real k * angle / 360)"]
    by (auto simp: k_def)
  from group_of_least_index [of k approx angle transl origin] k least assms(2)
  show ?thesis by blast
qed

section \<open>The near-integer test with an explicit tolerance\<close>

lemma is_approx_int_tol_int: "0 \<le> atol \<Longrightarrow> is_approx_int_tol atol (of_int m)"
  by (simp add: is_approx_int_tol_def)

lemma is_approx_int_tol_half: "atol < 1 / 2 \<Longrightarrow> \<not> is_approx_int_tol atol (1 / 2)"
  by (simp add: is_approx_int_tol_def round_def)

section \<open>Orthogonality and composition of the matrices\<close>

lemma unit_normalised:
  assumes "axis \<noteq> (0, 0, 0)"
  shows "dot (vec_div axis (linalg_norm axis)) (vec_div axis (linalg_norm axis)) = 1"
proof -
  obtain x y z where ax: "axis = (x, y, z)" by (cases axis)
  let ?q = "x * x + y * y + z * z"
  have nonneg: "0 \<le> ?q" by simp
  have "?q \<noteq> 0"
  proof
    assume q0: "?q = 0"
    have "x * x = 0" using q0 by (smt (verit) zero_le_square)
    moreover have "y * y = 0" using q0 by (smt (verit) zero_le_square)
    moreover have "z * z = 0" using q0 by (smt (verit) zero_le_square)
    ultimately show False using assms ax by simp
  qed
  from nonneg this have pos: "0 < ?q" by linarith
  define r where "r = sqrt ?q"
  have sq: "r * r = ?q" using nonneg by (simp add: r_def)
  have "x / r * (x / r) + y / r * (y / r) + z / r * (z / r) = ?q / (r * r)"
    by (simp add: add_divide_distrib)
  also have "\<dots> = 1" using pos by (simp only: sq) simp
  finally show ?thesis by (simp add: ax r_def)
qed

lemma rot_matrix_orthogonal:
  assumes "dot a a = 1"
  shows "orthogonal3 (rot_matrix t a)"
proof -
  obtain u v w where a: "a = (u, v, w)" by (cases a)
  from assms a have unit: "u * u + v * v + w * w = 1" by simp
  define c where "c = cos t"
  define s where "s = sin t"
  have cs: "c * c + s * s = 1"
    using sin_cos_squared_add2 [of t] by (simp add: power2_eq_square c_def s_def)
  show ?thesis
    unfolding orthogonal3_def rot_matrix_def a eye3_def c_def [symmetric] s_def [symmetric]
    apply simp
    using unit cs by algebra
qed

lemma rot_matrix_add:
  assumes "dot a a = 1"
  shows "matmul (rot_matrix s a) (rot_matrix t a) = rot_matrix (s + t) a"
proof -
  obtain u v w where a: "a = (u, v, w)" by (cases a)
  from assms a have unit: "u * u + v * v + w * w = 1" by simp
  define c1 where "c1 = cos s"
  define s1 where "s1 = sin s"
  define c2 where "c2 = cos t"
  define s2 where "s2 = sin t"
  have ca: "cos (s + t) = c1 * c2 - s1 * s2"
    by (simp add: cos_add c1_def s1_def c2_def s2_def)
  have sa: "sin (s + t) = s1 * c2 + c1 * s2"
    by (simp add: sin_add c1_def s1_def c2_def s2_def)
  show ?thesis
    unfolding rot_matrix_def a eye3_def ca sa
      c1_def [symmetric] s1_def [symmetric] c2_def [symmetric] s2_def [symmetric]
    apply simp
    using unit by algebra
qed

lemma refl_matrix_orthogonal:
  assumes "dot a a = 1"
  shows "orthogonal3 (refl_matrix a)"
proof -
  obtain u v w where a: "a = (u, v, w)" by (cases a)
  from assms a have unit: "u * u + v * v + w * w = 1" by simp
  show ?thesis
    unfolding orthogonal3_def refl_matrix_def a eye3_def
    apply simp
    using unit by algebra
qed

lemma rotoreflection_orthogonal:
  assumes "dot a a = 1"
  shows "orthogonal3 (matmul (refl_matrix a) (rot_matrix t a))"
proof -
  obtain u v w where a: "a = (u, v, w)" by (cases a)
  from assms a have unit: "u * u + v * v + w * w = 1" by simp
  define c where "c = cos t"
  define s where "s = sin t"
  have cs: "c * c + s * s = 1"
    using sin_cos_squared_add2 [of t] by (simp add: power2_eq_square c_def s_def)
  show ?thesis
    unfolding orthogonal3_def rot_matrix_def refl_matrix_def a eye3_def
      c_def [symmetric] s_def [symmetric]
    apply simp
    using unit cs by algebra
qed

lemma inversion_orthogonal: "orthogonal3 (mat_neg eye3)"
  by (simp add: orthogonal3_def eye3_def)

lemma rot_matrix_zero: "rot_matrix 0 a = eye3"
  by (cases a) (simp add: rot_matrix_def eye3_def)

lemma rot_matrix_full_turn: "rot_matrix (2 * pi) a = eye3"
  by (cases a) (simp add: rot_matrix_def eye3_def)

lemma rot_matrix_power:
  assumes "dot a a = 1"
  shows "mat_power (rot_matrix t a) k = rot_matrix (real k * t) a"
proof (induction k)
  case 0
  show ?case by (simp add: rot_matrix_zero)
next
  case (Suc k)
  have "real (Suc k) * t = t + real k * t" by (simp add: algebra_simps)
  with Suc rot_matrix_add [OF assms, of t "real k * t"] show ?case by simp
qed


section \<open>The claims\<close>

text \<open>
  C2 (as amended). If some positive multiple of \<open>angle / 360\<close> passes the near-integer
  test, \<open>k\<close> is the smallest such multiple, and the translation is not zero (or \<open>k = 1\<close>,
  where no screw is built), then \<open>screw_group\<close> returns the group of \<open>k\<close> elements
  \<open>Identity, screw (1 * angle) (1 * trans) origin, ..., screw ((k - 1) * angle)
  ((k - 1) * trans) origin\<close>. For the angle 180 and the translation \<open>(0, 0, 1)\<close>, with any
  test that accepts 1 and rejects 1/2, the loop stops at \<open>i = 2\<close> and the group is
  \<open>Identity, screw 180 (0, 0, 1)\<close>. With a nonzero translation the call returns a group
  whenever some positive multiple passes the test.
\<close>

theorem screw_group_closes:
  "(1 \<le> k \<and> approx (real k * angle / 360) \<and>
    (\<forall>j. 1 \<le> j \<and> j < k \<longrightarrow> \<not> approx (real j * angle / 360)) \<and>
    (transl \<noteq> (0, 0, 0) \<or> k = 1) \<longrightarrow>
    (\<exists>g rs. screw_group approx angle transl origin = Some (Inr g) \<and>
         elems g = Identity # rs \<and>
         map Inr rs =
           map (\<lambda>i. screw (real i * angle) (vec_scale (real i) transl) origin) [1..<k] \<and>
         length (elems g) = k \<and> ndim g = 3)) \<and>
   (approx 1 \<and> \<not> approx (1 / 2) \<longrightarrow>
    (\<exists>s. screw 180 (0, 0, 1) (0, 0, 0) = Inr s \<and>
         screw_group approx 180 (0, 0, 1) (0, 0, 0) =
           Some (Inr \<lparr>elems = [Identity, s], ndim = 3\<rparr>))) \<and>
   ((\<exists>m\<ge>1. approx (real m * angle / 360)) \<and> transl \<noteq> (0, 0, 0) \<longrightarrow>
    (\<exists>g. screw_group approx angle transl origin = Some (Inr g)))"
proof (intro conjI impI)
  assume "(\<exists>m\<ge>1. approx (real m * angle / 360)) \<and> transl \<noteq> (0, 0, 0)"
  then show "\<exists>g. screw_group approx angle transl origin = Some (Inr g)"
    using screw_group_returns by blast
next
  assume h: "1 \<le> k \<and> approx (real k * angle / 360) \<and>
    (\<forall>j. 1 \<le> j \<and> j < k \<longrightarrow> \<not> approx (real j * angle / 360)) \<and>
    (transl \<noteq> (0, 0, 0) \<or> k = 1)"
  then show "\<exists>g rs. screw_group approx angle transl origin = Some (Inr g) \<and>
         elems g = Identity # rs \<and>
         map Inr rs =
           map (\<lambda>i. screw (real i * angle) (vec_scale (real i) transl) origin) [1..<k] \<and>
         length (elems g) = k \<and> ndim g = 3"
    by (intro group_of_least_index) auto
next
  assume h: "approx 1 \<and> \<not> approx (1 / 2)"
  have no: "\<not> approx (real j * 180 / 360)" if "1 \<le> j" "j < 2" for j
  proof -
    from that have "j = 1" by simp
    with h show ?thesis by simp
  qed
  have yes: "approx (real 2 * 180 / 360)" using h by simp
  have nz: "((0, 0, 1) :: vec3) \<noteq> (0, 0, 0) \<or> (2::nat) = 1" by simp
  from group_of_least_index [of 2 approx 180 "(0, 0, 1)" "(0, 0, 0)", OF _ yes no nz]
  obtain g rs where g: "screw_group approx 180 (0, 0, 1) (0, 0, 0) = Some (Inr g)"
    "elems g = Identity # rs"
    "map Inr rs =
       map (\<lambda>i. screw (real i * 180) (vec_scale (real i) (0, 0, 1)) (0, 0, 0)) [1..<2]"
    "ndim g = 3"
    by auto
  from g(3) have "map Inr rs = [screw 180 (0, 0, 1) (0, 0, 0)]"
    by (simp add: upt_conv_Cons)
  then obtain s where s: "rs = [s]" "screw 180 (0, 0, 1) (0, 0, 0) = Inr s"
    by (cases rs) auto
  with g have "g = \<lparr>elems = [Identity, s], ndim = 3\<rparr>"
    by (simp add: point_group.equality)
  with g(1) s(2) show "\<exists>s. screw 180 (0, 0, 1) (0, 0, 0) = Inr s \<and>
         screw_group approx 180 (0, 0, 1) (0, 0, 0) =
           Some (Inr \<lparr>elems = [Identity, s], ndim = 3\<rparr>)"
    by blast
qed

theorem screw_group_closes_witness:
  "(\<exists>s1 s2. screw 120 (0, 0, 1) (1, 0, 0) = Inr s1 \<and>
      screw 240 (0, 0, 2) (1, 0, 0) = Inr s2 \<and>
      screw_group (is_approx_int_tol (1 / 10 ^ 8)) 120 (0, 0, 1) (1, 0, 0) =
        Some (Inr \<lparr>elems = [Identity, s1, s2], ndim = 3\<rparr>)) \<and>
   (\<exists>s. screw 180 (0, 0, 1) (0, 0, 0) = Inr s \<and>
      screw_group (is_approx_int_tol (1 / 10 ^ 8)) 180 (0, 0, 1) (0, 0, 0) =
        Some (Inr \<lparr>elems = [Identity, s], ndim = 3\<rparr>)) \<and>
   (\<exists>g. screw_group (is_approx_int_tol (1 / 10 ^ 8)) 120 (0, 0, 1) (1, 0, 0) = Some (Inr g))"
proof -
  let ?approx = "is_approx_int_tol (1 / 10 ^ 8)"
  have a3: "?approx (real 3 * 120 / 360)" by (simp add: is_approx_int_tol_def)
  have n: "\<not> ?approx (real j * 120 / 360)" if "1 \<le> j \<and> j < 3" for j
  proof -
    from that have "j = 1 \<or> j = 2" by auto
    then show ?thesis by (auto simp: is_approx_int_tol_def round_def)
  qed
  have one: "?approx 1" by (simp add: is_approx_int_tol_def)
  have half: "\<not> ?approx (1 / 2)" by (simp add: is_approx_int_tol_def round_def)
  have upt: "[Suc 0..<3] = [Suc 0, 2]" by (simp add: upt_conv_Cons)
  have nz: "((0, 0, 1) :: vec3) \<noteq> (0, 0, 0)" by simp
  have ex: "\<exists>m\<ge>1. ?approx (real m * 120 / 360)" using a3 by (metis one_le_numeral)
  note inst = screw_group_closes [of 3 ?approx 120 "(0, 0, 1)" "(1, 0, 0)"]
  from inst a3 n nz
  obtain g rs where g: "screw_group ?approx 120 (0, 0, 1) (1, 0, 0) = Some (Inr g)"
    "elems g = Identity # rs"
    "map Inr rs =
       map (\<lambda>i. screw (real i * 120) (vec_scale (real i) (0, 0, 1)) (1, 0, 0)) [1..<3]"
    "ndim g = 3"
    by auto
  from g(3) have "map Inr rs = [screw 120 (0, 0, 1) (1, 0, 0), screw 240 (0, 0, 2) (1, 0, 0)]"
    by (simp add: upt)
  then obtain s1 s2 where s: "rs = [s1, s2]" "screw 120 (0, 0, 1) (1, 0, 0) = Inr s1"
    "screw 240 (0, 0, 2) (1, 0, 0) = Inr s2"
    by (cases rs; cases "tl rs") auto
  with g have "g = \<lparr>elems = [Identity, s1, s2], ndim = 3\<rparr>"
    by (simp add: point_group.equality)
  with g(1) s have first: "\<exists>s1 s2. screw 120 (0, 0, 1) (1, 0, 0) = Inr s1 \<and>
      screw 240 (0, 0, 2) (1, 0, 0) = Inr s2 \<and>
      screw_group ?approx 120 (0, 0, 1) (1, 0, 0) =
        Some (Inr \<lparr>elems = [Identity, s1, s2], ndim = 3\<rparr>)"
    by blast
  from inst one half
  have second: "\<exists>s. screw 180 (0, 0, 1) (0, 0, 0) = Inr s \<and>
      screw_group ?approx 180 (0, 0, 1) (0, 0, 0) =
        Some (Inr \<lparr>elems = [Identity, s], ndim = 3\<rparr>)"
    by blast
  from inst ex nz
  have third: "\<exists>g. screw_group ?approx 120 (0, 0, 1) (1, 0, 0) = Some (Inr g)"
    by blast
  from first second third show ?thesis by blast
qed

text \<open>
  C2, the claim as stated, fails for the zero translation: with the angle 180 the
  multiple \<open>2 * 180 / 360\<close> passes the test, but the screw built at \<open>i = 1\<close> has a zero
  direction, and the call ends with a \<open>ValueError\<close> instead of a group.
\<close>

theorem screw_group_zero_translation_counterexample:
  "is_approx_int_tol (1 / 10 ^ 8) (real 2 * 180 / 360) \<and>
   screw_group (is_approx_int_tol (1 / 10 ^ 8)) 180 (0, 0, 0) (0, 0, 0) =
     Some (Inl (ValueError ''W must be an orthogonal matrix''))"
proof -
  have "\<not> is_approx_int_tol (1 / 10 ^ 8) (real 1 * 180 / 360)"
    by (simp add: is_approx_int_tol_def round_def)
  then have "screw_loop (is_approx_int_tol (1 / 10 ^ 8)) 180 (0, 0, 0) (0, 0, 0) 1 [Identity] =
      Some (Inl not_orthogonal)"
    by (rule screw_loop_zero_translation)
  then show ?thesis
    by (simp add: screw_group_def not_orthogonal_def is_approx_int_tol_def)
qed

text \<open>
  C3. For \<open>n \<ge> 1\<close> and a nonzero axis, \<open>C n axis\<close> returns a group of exactly \<open>n\<close>
  elements: \<open>Identity\<close>, then \<open>rotation (360 * i / n) axis\<close> for \<open>i = 1, ..., n - 1\<close>; and
  the linear part of \<open>rotation (360 / n) axis\<close>, multiplied with itself \<open>n\<close> times, is the
  identity matrix.
\<close>

theorem C_cyclic:
  assumes "1 \<le> n" and "axis \<noteq> (0, 0, 0)"
  shows "(\<exists>g rs. C n axis = Inr g \<and> length (elems g) = nat n \<and> ndim g = 3 \<and>
            elems g = Identity # rs \<and>
            map Inr rs =
              map (\<lambda>i. rotation (360 * real_of_int i / real_of_int n) axis) [1..n - 1]) \<and>
         (\<exists>W. rotation (360 / real_of_int n) axis = Inr (PGSymmetry W None) \<and>
              mat_power W (nat n) = eye3)"
proof (intro conjI)
  have eq: "360 / real_of_int n * real_of_int i = 360 * real_of_int i / real_of_int n" for i
    by simp
  let ?a = "vec_div axis (linalg_norm axis)"
  let ?rs = "map (\<lambda>i. PGSymmetry
                (rot_matrix (radians (360 * real_of_int i / real_of_int n)) ?a) None)
              [1..n - 1]"
  have c: "C n axis = Inr \<lparr>elems = Identity # ?rs, ndim = 3\<rparr>"
    by (simp add: C_value [OF assms(2)] range_py_def eq)
  have m: "map Inr ?rs =
      map (\<lambda>i. rotation (360 * real_of_int i / real_of_int n) axis) [1..n - 1]"
    by (simp add: rotation_value [OF assms(2)])
  have l: "length (Identity # ?rs) = nat n" using assms(1) by simp
  from c m l show "\<exists>g rs. C n axis = Inr g \<and> length (elems g) = nat n \<and> ndim g = 3 \<and>
            elems g = Identity # rs \<and>
            map Inr rs =
              map (\<lambda>i. rotation (360 * real_of_int i / real_of_int n) axis) [1..n - 1]"
    by (intro exI [of _ "\<lparr>elems = Identity # ?rs, ndim = 3\<rparr>"] exI [of _ ?rs]) simp
next
  let ?a = "vec_div axis (linalg_norm axis)"
  let ?t = "radians (360 / real_of_int n)"
  have unit: "dot ?a ?a = 1" using assms(2) by (rule unit_normalised)
  have "real (nat n) * ?t = 2 * pi"
    using assms(1) by (simp add: radians_def)
  with rot_matrix_power [OF unit, of ?t "nat n"]
  have "mat_power (rot_matrix ?t ?a) (nat n) = eye3"
    by (simp add: rot_matrix_full_turn)
  then show "\<exists>W. rotation (360 / real_of_int n) axis = Inr (PGSymmetry W None) \<and>
              mat_power W (nat n) = eye3"
    by (simp add: rotation_value [OF assms(2)])
qed

theorem C_cyclic_witness:
  "(\<exists>g r1 r2 r3. C 4 (0, 0, 1) = Inr g \<and> length (elems g) = 4 \<and> ndim g = 3 \<and>
       elems g = [Identity, r1, r2, r3] \<and>
       rotation 90 (0, 0, 1) = Inr r1 \<and> rotation 180 (0, 0, 1) = Inr r2 \<and>
       rotation 270 (0, 0, 1) = Inr r3) \<and>
   (\<exists>W. rotation 90 (0, 0, 1) = Inr (PGSymmetry W None) \<and> mat_power W 4 = eye3)"
proof -
  have upto: "[1..(3::int)] = [1, 2, 3]" by (simp add: upto.simps)
  have nz: "((0, 0, 1) :: vec3) \<noteq> (0, 0, 0)" by simp
  have one: "(1::int) \<le> 4" by simp
  from C_cyclic [OF one nz]
  have both: "(\<exists>g rs. C 4 (0, 0, 1) = Inr g \<and> length (elems g) = 4 \<and> ndim g = 3 \<and>
          elems g = Identity # rs \<and>
          map Inr rs =
            [rotation 90 (0, 0, 1), rotation 180 (0, 0, 1), rotation 270 (0, 0, 1)]) \<and>
        (\<exists>W. rotation 90 (0, 0, 1) = Inr (PGSymmetry W None) \<and> mat_power W 4 = eye3)"
    by (simp add: upto del: split_paired_Ex)
  note W = both [THEN conjunct2]
  from both [THEN conjunct1]
  obtain g rs where g: "C 4 (0, 0, 1) = Inr g" "length (elems g) = 4" "ndim g = 3"
    "elems g = Identity # rs"
    "map Inr rs = [rotation 90 (0, 0, 1), rotation 180 (0, 0, 1), rotation 270 (0, 0, 1)]"
    by (elim exE conjE)
  from g(5) obtain r1 r2 r3 where "rs = [r1, r2, r3]" "rotation 90 (0, 0, 1) = Inr r1"
    "rotation 180 (0, 0, 1) = Inr r2" "rotation 270 (0, 0, 1) = Inr r3"
    by (cases rs; cases "tl rs"; cases "tl (tl rs)") auto
  with g W show ?thesis by blast
qed

text \<open>
  C4. For odd \<open>n\<close>, \<open>S n axis\<close> is \<open>Ch n axis\<close>. For even \<open>n \<ge> 2\<close> it is the group
  \<open>Identity\<close>, then for \<open>i = 1, ..., n - 1\<close> the rotoreflection by \<open>360 * i / n\<close> when \<open>i\<close> is
  odd and the rotation by \<open>360 * i / n\<close> when \<open>i\<close> is even: the call fails where one of
  these builders fails, and for a nonzero axis none fails and the group has \<open>n\<close> elements.
\<close>

theorem S_cases:
  "(odd n \<longrightarrow> S mul n axis = Ch mul n axis) \<and>
   (even n \<and> 2 \<le> n \<longrightarrow>
    S mul n axis =
      (case list_comp
              (\<lambda>i. if odd i
                    then rotoreflection (360 * real_of_int i / real_of_int n) axis
                    else rotation (360 * real_of_int i / real_of_int n) axis)
              [1..n - 1] of
         Inl e \<Rightarrow> Inl e
       | Inr rs \<Rightarrow> Inr \<lparr>elems = Identity # rs, ndim = 3\<rparr>)) \<and>
   (even n \<and> 2 \<le> n \<and> axis \<noteq> (0, 0, 0) \<longrightarrow>
    (\<exists>rs. S mul n axis = Inr \<lparr>elems = Identity # rs, ndim = 3\<rparr> \<and>
          length (Identity # rs) = nat n \<and>
          map Inr rs =
            map (\<lambda>i. if odd i
                      then rotoreflection (360 * real_of_int i / real_of_int n) axis
                      else rotation (360 * real_of_int i / real_of_int n) axis)
                [1..n - 1]))"
proof -
  let ?f = "\<lambda>i. if odd i
                then rotoreflection (360 * real_of_int i / real_of_int n) axis
                else rotation (360 * real_of_int i / real_of_int n) axis"
  have eq: "360 / real_of_int n * real_of_int i = 360 * real_of_int i / real_of_int n" for i
    by simp
  have od: "(i mod 2 = 1) = odd i" for i :: int
    by (simp add: odd_iff_mod_2_eq_one)
  have odd_case: "S mul n axis = Ch mul n axis" if "odd n"
  proof -
    from that have "n mod 2 = 1" by (simp add: odd_iff_mod_2_eq_one)
    then show ?thesis by (simp add: S_def)
  qed
  have even_case: "S mul n axis =
      (case list_comp ?f [1..n - 1] of
         Inl e \<Rightarrow> Inl e
       | Inr rs \<Rightarrow> Inr \<lparr>elems = Identity # rs, ndim = 3\<rparr>)" if "even n"
  proof -
    from that have "n mod 2 \<noteq> 1" by (simp add: even_iff_mod_2_eq_zero)
    then show ?thesis
      by (simp add: S_even_comprehension range_py_def eq od cong: if_cong)
  qed
  have nonzero_case: "\<exists>rs. S mul n axis = Inr \<lparr>elems = Identity # rs, ndim = 3\<rparr> \<and>
          length (Identity # rs) = nat n \<and> map Inr rs = map ?f [1..n - 1]"
    if "even n" "2 \<le> n" "axis \<noteq> (0, 0, 0)"
  proof -
    have "\<exists>y. ?f i = Inr y" for i
      using rotation_value [OF that(3)] rotoreflection_value [OF that(3)] by simp
    then obtain h where h: "\<And>i. ?f i = Inr (h i)" by metis
    have lc: "list_comp ?f [1..n - 1] = Inr (map h [1..n - 1])"
      by (rule list_comp_total) (rule h)
    have "map Inr (map h [1..n - 1]) = map ?f [1..n - 1]"
      using lc by (simp only: list_comp_Inr_iff)
    moreover have "length (Identity # map h [1..n - 1]) = nat n"
      using that(2) by simp
    moreover have "S mul n axis = Inr \<lparr>elems = Identity # map h [1..n - 1], ndim = 3\<rparr>"
      using even_case [OF that(1)] lc by simp
    ultimately show ?thesis by blast
  qed
  from odd_case even_case nonzero_case show ?thesis by blast
qed

theorem S_cases_witness:
  "S op_matmul 3 (0, 0, 1) = Ch op_matmul 3 (0, 0, 1) \<and>
   (\<exists>r1 r2 r3. rotoreflection 90 (0, 0, 1) = Inr r1 \<and> rotation 180 (0, 0, 1) = Inr r2 \<and>
      rotoreflection 270 (0, 0, 1) = Inr r3 \<and>
      S op_matmul 4 (0, 0, 1) = Inr \<lparr>elems = [Identity, r1, r2, r3], ndim = 3\<rparr>)"
proof -
  have upto: "[1..(3::int)] = [1, 2, 3]" by (simp add: upto.simps)
  have nz: "((0, 0, 1) :: vec3) \<noteq> (0, 0, 0)" by simp
  from S_cases [of 4 op_matmul "(0, 0, 1)", THEN conjunct2, THEN conjunct2] nz
  have "\<exists>rs. S op_matmul 4 (0, 0, 1) = Inr \<lparr>elems = Identity # rs, ndim = 3\<rparr> \<and>
      length rs = 3 \<and>
      map Inr rs =
        [rotoreflection 90 (0, 0, 1), rotation 180 (0, 0, 1), rotoreflection 270 (0, 0, 1)]"
    by (simp add: upto del: split_paired_Ex)
  then obtain rs where rs: "S op_matmul 4 (0, 0, 1) = Inr \<lparr>elems = Identity # rs, ndim = 3\<rparr>"
    "map Inr rs =
       [rotoreflection 90 (0, 0, 1), rotation 180 (0, 0, 1), rotoreflection 270 (0, 0, 1)]"
    by (elim exE conjE)
  from rs(2) obtain r1 r2 r3 where "rs = [r1, r2, r3]" "rotoreflection 90 (0, 0, 1) = Inr r1"
    "rotation 180 (0, 0, 1) = Inr r2" "rotoreflection 270 (0, 0, 1) = Inr r3"
    by (cases rs; cases "tl rs"; cases "tl (tl rs)") auto
  moreover have "S op_matmul 3 (0, 0, 1) = Ch op_matmul 3 (0, 0, 1)"
    using S_cases [of 3 op_matmul "(0, 0, 1)"] by simp
  ultimately show ?thesis using rs(1) by blast
qed

text \<open>
  C5. For a nonzero axis (for \<open>screw\<close>: a nonzero translation), the linear part \<open>W\<close> built
  by \<open>rotation\<close>, \<open>reflection\<close>, \<open>rotoreflection\<close>, \<open>inversion\<close>, \<open>screw\<close> and \<open>glide\<close> is
  orthogonal: the transpose of \<open>W\<close> times \<open>W\<close> is the identity matrix.
\<close>

theorem builders_orthogonal:
  assumes "axis \<noteq> (0, 0, 0)"
  shows "(\<exists>W w. rotation angle axis = Inr (PGSymmetry W w) \<and> orthogonal3 W) \<and>
         (\<exists>W w. reflection (components axis) = Inr (PGSymmetry W w) \<and> orthogonal3 W) \<and>
         (\<exists>W w. rotoreflection angle axis = Inr (PGSymmetry W w) \<and> orthogonal3 W) \<and>
         (\<exists>W w. inversion = PGSymmetry W w \<and> orthogonal3 W) \<and>
         (\<exists>W w. screw angle axis origin = Inr (PGSymmetry W w) \<and> orthogonal3 W) \<and>
         (isclose (dot axis transl) 0 \<longrightarrow>
            (\<exists>W w. glide axis transl origin = Inr (PGSymmetry W w) \<and> orthogonal3 W))"
proof -
  let ?a = "vec_div axis (linalg_norm axis)"
  have unit: "dot ?a ?a = 1" using assms by (rule unit_normalised)
  have rot: "orthogonal3 (rot_matrix (radians angle) ?a)"
    using unit by (rule rot_matrix_orthogonal)
  have refl: "orthogonal3 (refl_matrix ?a)"
    using unit by (rule refl_matrix_orthogonal)
  have rr: "orthogonal3 (matmul (refl_matrix ?a) (rot_matrix (radians angle) ?a))"
    using unit by (rule rotoreflection_orthogonal)
  have 1: "\<exists>W w. rotation angle axis = Inr (PGSymmetry W w) \<and> orthogonal3 W"
    using rot rotation_value [OF assms] by blast
  have 2: "\<exists>W w. reflection (components axis) = Inr (PGSymmetry W w) \<and> orthogonal3 W"
    using refl reflection_value [OF assms] by blast
  have 3: "\<exists>W w. rotoreflection angle axis = Inr (PGSymmetry W w) \<and> orthogonal3 W"
    using rr rotoreflection_value [OF assms] by blast
  have 4: "\<exists>W w. inversion = PGSymmetry W w \<and> orthogonal3 W"
    using inversion_orthogonal inversion_def by blast
  have 5: "\<exists>W w. screw angle axis origin = Inr (PGSymmetry W w) \<and> orthogonal3 W"
    using rot screw_value [OF assms] by blast
  have 6: "\<exists>W w. glide axis transl origin = Inr (PGSymmetry W w) \<and> orthogonal3 W"
    if "isclose (dot axis transl) 0"
    using refl glide_value [OF that assms] by blast
  from 1 2 3 4 5 6 show ?thesis by blast
qed

theorem builders_orthogonal_witness:
  "(\<exists>W w. rotation 30 (1, 2, 2) = Inr (PGSymmetry W w) \<and> orthogonal3 W) \<and>
   (\<exists>W w. reflection [1, 2, 2] = Inr (PGSymmetry W w) \<and> orthogonal3 W) \<and>
   (\<exists>W w. rotoreflection 30 (1, 2, 2) = Inr (PGSymmetry W w) \<and> orthogonal3 W) \<and>
   (\<exists>W w. inversion = PGSymmetry W w \<and> orthogonal3 W) \<and>
   (\<exists>W w. screw 30 (1, 2, 2) (0, 1, 0) = Inr (PGSymmetry W w) \<and> orthogonal3 W) \<and>
   (\<exists>W w. glide (1, 2, 2) (2, 0, - 1) (0, 1, 0) = Inr (PGSymmetry W w) \<and> orthogonal3 W)"
proof -
  have ne: "((1, 2, 2) :: vec3) \<noteq> (0, 0, 0)" by simp
  have perp: "isclose (dot (1, 2, 2) (2, 0, - 1)) 0" by (simp add: isclose_def)
  have comp: "components (1, 2, 2) = [1, 2, 2]" by simp
  from builders_orthogonal [OF ne, of 30 "(0, 1, 0)" "(2, 0, - 1)"] perp
  show ?thesis unfolding comp by blast
qed

text \<open>
  C6 (as amended). \<open>Cv\<close>, \<open>D\<close>, \<open>Dh\<close> and \<open>Dd\<close> fail with an assertion failure whenever
  the dot product of \<open>axis\<close> and \<open>axis2\<close> is not close to zero, and \<open>glide\<close> and
  \<open>glide_group\<close> whenever the dot product of \<open>axis\<close> and \<open>trans\<close> is not close to zero.
  When the dot product is close to zero and the axes are not zero, each call returns its
  complete result: the product group of its two factors, of dimension 3 and with all
  pairwise products as elements, or the glide operation.
\<close>

theorem perpendicularity_checked:
  "(\<not> isclose (dot axis axis2) 0 \<longrightarrow>
      Cv mul n axis axis2 = Inl AssertionError \<and>
      D mul n axis axis2 = Inl AssertionError \<and>
      Dh mul n axis axis2 = Inl AssertionError \<and>
      Dd mul n axis axis2 = Inl AssertionError) \<and>
   (\<not> isclose (dot axis transl) 0 \<longrightarrow>
      glide axis transl origin = Inl AssertionError \<and>
      glide_group axis transl origin = Inl AssertionError) \<and>
   (isclose (dot axis axis2) 0 \<and> axis \<noteq> (0, 0, 0) \<and> axis2 \<noteq> (0, 0, 0) \<longrightarrow>
      (\<exists>r2 c. reflection_group (components axis2) = Inr r2 \<and> C n axis = Inr c \<and>
         Cv mul n axis axis2 = Inr (group_matmul mul r2 c) \<and>
         ndim (group_matmul mul r2 c) = 3 \<and>
         length (elems (group_matmul mul r2 c)) = 2 * nat (max 1 n)) \<and>
      (\<exists>c2 c. C 2 axis2 = Inr c2 \<and> C n axis = Inr c \<and>
         D mul n axis axis2 = Inr (group_matmul mul c2 c) \<and>
         ndim (group_matmul mul c2 c) = 3 \<and>
         length (elems (group_matmul mul c2 c)) = 2 * nat (max 1 n)) \<and>
      (\<exists>r d. reflection_group (components axis) = Inr r \<and> D mul n axis axis2 = Inr d \<and>
         Dh mul n axis axis2 = Inr (group_matmul mul r d) \<and>
         ndim (group_matmul mul r d) = 3 \<and>
         length (elems (group_matmul mul r d)) = 4 * nat (max 1 n)) \<and>
      (\<exists>r2 s. reflection_group (components axis2) = Inr r2 \<and> S mul (2 * n) axis = Inr s \<and>
         Dd mul n axis axis2 = Inr (group_matmul mul r2 s) \<and>
         ndim (group_matmul mul r2 s) = 3 \<and>
         length (elems (group_matmul mul r2 s)) = 2 * nat (max 1 (2 * n)))) \<and>
   (isclose (dot axis transl) 0 \<and> axis \<noteq> (0, 0, 0) \<longrightarrow>
      (\<exists>W. reflection (components axis) = Inr (PGSymmetry W None) \<and>
         glide axis transl origin =
           Inr (PGSymmetry W (Some (vec_add transl (matvec (mat_sub eye3 W) origin)))) \<and>
         glide_group axis transl origin =
           Inr \<lparr>elems =
                  [Identity,
                   PGSymmetry W (Some (vec_add transl (matvec (mat_sub eye3 W) origin)))],
                ndim = 3\<rparr>))"
proof (intro conjI impI)
  assume no: "\<not> isclose (dot axis axis2) 0"
  then have nz: "axis \<noteq> (0, 0, 0)" by (rule not_close_nonzero)
  show "Cv mul n axis axis2 = Inl AssertionError" using no by (simp add: Cv_def)
  show d: "D mul n axis axis2 = Inl AssertionError" using no by (simp add: D_def)
  show "Dh mul n axis axis2 = Inl AssertionError"
    using d by (simp add: Dh_def reflection_group_value [OF nz])
  show "Dd mul n axis axis2 = Inl AssertionError" using no by (simp add: Dd_def)
next
  assume no: "\<not> isclose (dot axis transl) 0"
  show g: "glide axis transl origin = Inl AssertionError" using no by (simp add: glide_def)
  show "glide_group axis transl origin = Inl AssertionError"
    using g by (simp add: glide_group_def)
next
  assume h: "isclose (dot axis axis2) 0 \<and> axis \<noteq> (0, 0, 0) \<and> axis2 \<noteq> (0, 0, 0)"
  then have ok: "isclose (dot axis axis2) 0" and nz: "axis \<noteq> (0, 0, 0)"
    and nz2: "axis2 \<noteq> (0, 0, 0)"
    by simp_all
  obtain r where r: "reflection_group (components axis) = Inr r"
    "ndim r = 3" "length (elems r) = 2"
    using reflection_group_value [OF nz] by simp
  obtain r2 where r2: "reflection_group (components axis2) = Inr r2"
    "ndim r2 = 3" "length (elems r2) = 2"
    using reflection_group_value [OF nz2] by simp
  obtain c where c: "C n axis = Inr c" "ndim c = 3" "length (elems c) = nat (max 1 n)"
    using C_succeeds [OF nz, of n] by blast
  obtain c2 where c2: "C 2 axis2 = Inr c2" "ndim c2 = 3" "length (elems c2) = 2"
    using C_succeeds [OF nz2, of 2] by auto
  have "(2 * n) mod 2 \<noteq> 1" by simp
  from S_even_succeeds [OF this nz, of mul]
  obtain s where s: "S mul (2 * n) axis = Inr s" "ndim s = 3"
    "length (elems s) = nat (max 1 (2 * n))"
    by blast
  have d: "D mul n axis axis2 = Inr (group_matmul mul c2 c)"
    using ok c2(1) c(1) by (simp add: D_def)
  show "\<exists>r2 c. reflection_group (components axis2) = Inr r2 \<and> C n axis = Inr c \<and>
         Cv mul n axis axis2 = Inr (group_matmul mul r2 c) \<and>
         ndim (group_matmul mul r2 c) = 3 \<and>
         length (elems (group_matmul mul r2 c)) = 2 * nat (max 1 n)"
    using ok r2 c by (simp add: Cv_def length_group_matmul ndim_group_matmul)
  show "\<exists>c2 c. C 2 axis2 = Inr c2 \<and> C n axis = Inr c \<and>
         D mul n axis axis2 = Inr (group_matmul mul c2 c) \<and>
         ndim (group_matmul mul c2 c) = 3 \<and>
         length (elems (group_matmul mul c2 c)) = 2 * nat (max 1 n)"
    using d c2 c by (simp add: length_group_matmul ndim_group_matmul)
  show "\<exists>r d. reflection_group (components axis) = Inr r \<and> D mul n axis axis2 = Inr d \<and>
         Dh mul n axis axis2 = Inr (group_matmul mul r d) \<and>
         ndim (group_matmul mul r d) = 3 \<and>
         length (elems (group_matmul mul r d)) = 4 * nat (max 1 n)"
    using d r c2 c by (simp add: Dh_def length_group_matmul ndim_group_matmul)
  show "\<exists>r2 s. reflection_group (components axis2) = Inr r2 \<and> S mul (2 * n) axis = Inr s \<and>
         Dd mul n axis axis2 = Inr (group_matmul mul r2 s) \<and>
         ndim (group_matmul mul r2 s) = 3 \<and>
         length (elems (group_matmul mul r2 s)) = 2 * nat (max 1 (2 * n))"
    using ok r2 s by (simp add: Dd_def length_group_matmul ndim_group_matmul)
next
  assume h: "isclose (dot axis transl) 0 \<and> axis \<noteq> (0, 0, 0)"
  then have ok: "isclose (dot axis transl) 0" and nz: "axis \<noteq> (0, 0, 0)" by simp_all
  let ?W = "refl_matrix (vec_div axis (linalg_norm axis))"
  let ?w = "vec_add transl (matvec (mat_sub eye3 ?W) origin)"
  have g: "glide axis transl origin = Inr (PGSymmetry ?W (Some ?w))"
    using ok nz by (rule glide_value)
  then have "glide_group axis transl origin =
      Inr \<lparr>elems = [Identity, PGSymmetry ?W (Some ?w)], ndim = 3\<rparr>"
    by (simp add: glide_group_def)
  with g reflection_value [OF nz]
  show "\<exists>W. reflection (components axis) = Inr (PGSymmetry W None) \<and>
         glide axis transl origin =
           Inr (PGSymmetry W (Some (vec_add transl (matvec (mat_sub eye3 W) origin)))) \<and>
         glide_group axis transl origin =
           Inr \<lparr>elems =
                  [Identity,
                   PGSymmetry W (Some (vec_add transl (matvec (mat_sub eye3 W) origin)))],
                ndim = 3\<rparr>"
    by blast
qed

theorem perpendicularity_checked_witness:
  "Cv op_matmul 3 (0, 0, 1) (0, 0, 1) = Inl AssertionError \<and>
   D op_matmul 3 (0, 0, 1) (0, 0, 1) = Inl AssertionError \<and>
   Dh op_matmul 3 (0, 0, 1) (0, 0, 1) = Inl AssertionError \<and>
   Dd op_matmul 3 (0, 0, 1) (0, 0, 1) = Inl AssertionError \<and>
   glide (0, 0, 1) (0, 1, 1) (0, 0, 0) = Inl AssertionError \<and>
   glide_group (0, 0, 1) (0, 1, 1) (0, 0, 0) = Inl AssertionError \<and>
   (\<exists>g. Cv op_matmul 3 (0, 0, 1) (1, 0, 0) = Inr g \<and> ndim g = 3 \<and> length (elems g) = 6) \<and>
   (\<exists>g. D op_matmul 3 (0, 0, 1) (1, 0, 0) = Inr g \<and> ndim g = 3 \<and> length (elems g) = 6) \<and>
   (\<exists>g. Dh op_matmul 2 (0, 0, 1) (1, 0, 0) = Inr g \<and> ndim g = 3 \<and> length (elems g) = 8) \<and>
   (\<exists>g. Dd op_matmul 3 (0, 0, 1) (1, 0, 0) = Inr g \<and> ndim g = 3 \<and> length (elems g) = 12) \<and>
   (\<exists>W w. glide (0, 0, 1) (0, 1, 0) (0, 0, 0) = Inr (PGSymmetry W (Some w)) \<and>
      glide_group (0, 0, 1) (0, 1, 0) (0, 0, 0) =
        Inr \<lparr>elems = [Identity, PGSymmetry W (Some w)], ndim = 3\<rparr>)"
proof -
  have bad: "\<not> isclose (dot (0, 0, 1) (0, 0, 1)) 0" by (simp add: isclose_def)
  have bad': "\<not> isclose (dot (0, 0, 1) (0, 1, 1)) 0" by (simp add: isclose_def)
  have ok: "isclose (dot (0, 0, 1) (1, 0, 0)) 0" by (simp add: isclose_def)
  have ok': "isclose (dot (0, 0, 1) (0, 1, 0)) 0" by (simp add: isclose_def)
  have nz: "((0, 0, 1) :: vec3) \<noteq> (0, 0, 0)" "((1, 0, 0) :: vec3) \<noteq> (0, 0, 0)"
    by simp_all
  have m3: "2 * nat (max 1 (3::int)) = 6" "2 * nat (max 1 (2 * (3::int))) = 12"
    "4 * nat (max 1 (2::int)) = 8"
    by simp_all
  from perpendicularity_checked [of "(0, 0, 1)" "(0, 0, 1)" op_matmul 3 "(0, 1, 1)" "(0, 0, 0)"]
    bad bad'
  have fails: "Cv op_matmul 3 (0, 0, 1) (0, 0, 1) = Inl AssertionError \<and>
      D op_matmul 3 (0, 0, 1) (0, 0, 1) = Inl AssertionError \<and>
      Dh op_matmul 3 (0, 0, 1) (0, 0, 1) = Inl AssertionError \<and>
      Dd op_matmul 3 (0, 0, 1) (0, 0, 1) = Inl AssertionError \<and>
      glide (0, 0, 1) (0, 1, 1) (0, 0, 0) = Inl AssertionError \<and>
      glide_group (0, 0, 1) (0, 1, 1) (0, 0, 0) = Inl AssertionError"
    by blast
  from perpendicularity_checked [of "(0, 0, 1)" "(1, 0, 0)" op_matmul 3 "(0, 1, 0)" "(0, 0, 0)"]
    ok ok' nz
  have three: "(\<exists>g. Cv op_matmul 3 (0, 0, 1) (1, 0, 0) = Inr g \<and> ndim g = 3 \<and>
        length (elems g) = 2 * nat (max 1 3)) \<and>
      (\<exists>g. D op_matmul 3 (0, 0, 1) (1, 0, 0) = Inr g \<and> ndim g = 3 \<and>
        length (elems g) = 2 * nat (max 1 3)) \<and>
      (\<exists>g. Dd op_matmul 3 (0, 0, 1) (1, 0, 0) = Inr g \<and> ndim g = 3 \<and>
        length (elems g) = 2 * nat (max 1 (2 * 3))) \<and>
      (\<exists>W w. glide (0, 0, 1) (0, 1, 0) (0, 0, 0) = Inr (PGSymmetry W (Some w)) \<and>
         glide_group (0, 0, 1) (0, 1, 0) (0, 0, 0) =
           Inr \<lparr>elems = [Identity, PGSymmetry W (Some w)], ndim = 3\<rparr>)"
    by blast
  from perpendicularity_checked [of "(0, 0, 1)" "(1, 0, 0)" op_matmul 2 "(0, 1, 0)" "(0, 0, 0)"]
    ok nz
  have two: "\<exists>g. Dh op_matmul 2 (0, 0, 1) (1, 0, 0) = Inr g \<and> ndim g = 3 \<and>
      length (elems g) = 4 * nat (max 1 2)"
    by blast
  from fails three two show ?thesis unfolding m3 by blast
qed

text \<open>
  C6, the claim as stated, fails for a zero axis: the dot product of \<open>(0, 0, 0)\<close> with
  any vector is zero, so the check passes, but the rotations about the zero axis cannot
  be built and the call ends with a \<open>ValueError\<close>.
\<close>

theorem zero_axis_counterexample:
  "isclose (dot (0, 0, 0) (1, 0, 0)) 0 \<and>
   Cv op_matmul 4 (0, 0, 0) (1, 0, 0) = Inl (ValueError ''W must be an orthogonal matrix'') \<and>
   isclose (dot (0, 0, 0) (0, 1, 0)) 0 \<and>
   glide (0, 0, 0) (0, 1, 0) (0, 0, 0) = Inl (ValueError ''W must be an orthogonal matrix'')"
proof -
  have nz: "((1, 0, 0) :: vec3) \<noteq> (0, 0, 0)" by simp
  have "C 4 (0, 0, 0) = Inl not_orthogonal" by (rule C_zero_axis) simp
  moreover obtain r where "reflection_group (components (1, 0, 0)) = Inr r"
    using reflection_group_value [OF nz] by blast
  ultimately have "Cv op_matmul 4 (0, 0, 0) (1, 0, 0) = Inl not_orthogonal"
    by (simp add: Cv_def isclose_def)
  moreover have "glide (0, 0, 0) (0, 1, 0) (0, 0, 0) = Inl not_orthogonal"
    by (simp add: glide_def isclose_def unit_vector_zero)
  ultimately show ?thesis by (simp add: not_orthogonal_def isclose_def)
qed

text \<open>
  C7. \<open>reflection\<close> fails with the \<open>ValueError\<close> whose message points to
  \<open>nk.utils.group.planar.reflection\<close> exactly when the axis does not have 3 components.
  For a nonzero axis \<open>(x, y, z)\<close> it returns the linear part \<open>I - 2 * (a \<otimes> a)\<close>, where \<open>a\<close>
  is the axis divided by its norm, and no translation.
\<close>

theorem reflection_validates:
  "(reflection axis =
      Inl (ValueError
        ''The axis must be a 3 component vector.If you want reflections in 2 dimensions, use nk.utils.group.planar.reflection instead.'')
    \<longleftrightarrow> length axis \<noteq> 3) \<and>
   ((x, y, z) \<noteq> (0, 0, 0) \<longrightarrow>
      (let r = sqrt (x * x + y * y + z * z); a0 = x / r; a1 = y / r; a2 = z / r
       in reflection [x, y, z] =
            Inr (PGSymmetry
                  ((1 - 2 * (a0 * a0), 0 - 2 * (a0 * a1), 0 - 2 * (a0 * a2)),
                   (0 - 2 * (a1 * a0), 1 - 2 * (a1 * a1), 0 - 2 * (a1 * a2)),
                   (0 - 2 * (a2 * a0), 0 - 2 * (a2 * a1), 1 - 2 * (a2 * a2)))
                  None)))"
proof (intro conjI impI)
  show "reflection axis =
      Inl (ValueError
        ''The axis must be a 3 component vector.If you want reflections in 2 dimensions, use nk.utils.group.planar.reflection instead.'')
    \<longleftrightarrow> length axis \<noteq> 3"
    by (simp add: reflection_def not_orthogonal_def split: option.splits)
next
  assume nz: "(x, y, z) \<noteq> (0, 0, 0)"
  have "reflection (components (x, y, z)) =
      Inr (PGSymmetry (refl_matrix (vec_div (x, y, z) (linalg_norm (x, y, z)))) None)"
    using nz by (rule reflection_value)
  then show "let r = sqrt (x * x + y * y + z * z); a0 = x / r; a1 = y / r; a2 = z / r
       in reflection [x, y, z] =
            Inr (PGSymmetry
                  ((1 - 2 * (a0 * a0), 0 - 2 * (a0 * a1), 0 - 2 * (a0 * a2)),
                   (0 - 2 * (a1 * a0), 1 - 2 * (a1 * a1), 0 - 2 * (a1 * a2)),
                   (0 - 2 * (a2 * a0), 0 - 2 * (a2 * a1), 1 - 2 * (a2 * a2)))
                  None)"
    by (simp add: refl_matrix_def eye3_def Let_def)
qed

theorem reflection_validates_witness:
  "reflection [1, 0] =
     Inl (ValueError
       ''The axis must be a 3 component vector.If you want reflections in 2 dimensions, use nk.utils.group.planar.reflection instead.'') \<and>
   reflection [0, 0, 2] \<noteq>
     Inl (ValueError
       ''The axis must be a 3 component vector.If you want reflections in 2 dimensions, use nk.utils.group.planar.reflection instead.'') \<and>
   reflection [0, 0, 2] = Inr (PGSymmetry ((1, 0, 0), (0, 1, 0), (0, 0, - 1)) None)"
proof -
  have ne: "((0, 0, 2) :: vec3) \<noteq> (0, 0, 0)" by simp
  have len: "length [1, 0 :: real] \<noteq> 3" "length [0, 0, 2 :: real] = 3" by simp_all
  from reflection_validates [of "[1, 0]" 0 0 2] reflection_validates [of "[0, 0, 2]" 0 0 2]
    ne len
  show ?thesis by (simp add: Let_def)
qed

text \<open>
  C8. For a nonzero translation, \<open>screw angle trans origin\<close> has the linear part \<open>W\<close> of
  the rotation by \<open>angle\<close> about \<open>trans\<close> (the Rodrigues matrix for the normalised
  direction) and the translation \<open>trans + (I - W) origin\<close>; with the origin
  \<open>(0, 0, 0)\<close> the translation is \<open>trans\<close>.
\<close>

theorem screw_translation:
  assumes "transl \<noteq> (0, 0, 0)"
  shows "\<exists>W. rotation angle transl = Inr (PGSymmetry W None) \<and>
              W = rodrigues (angle * pi / 180) (vec_div transl (linalg_norm transl)) \<and>
              screw angle transl origin =
                Inr (PGSymmetry W (Some (vec_add transl (matvec (mat_sub eye3 W) origin)))) \<and>
              screw angle transl (0, 0, 0) = Inr (PGSymmetry W (Some transl))"
proof -
  have zero: "vec_add transl (matvec M (0, 0, 0)) = transl" for M
    by (cases transl, cases M) auto
  show ?thesis
    by (simp add: rotation_value [OF assms] screw_value [OF assms] radians_def zero
        rot_matrix_rodrigues)
qed

theorem screw_translation_witness:
  "\<exists>W. rotation 90 (0, 0, 2) = Inr (PGSymmetry W None) \<and>
        W = rodrigues (90 * pi / 180) (vec_div (0, 0, 2) (linalg_norm (0, 0, 2))) \<and>
        screw 90 (0, 0, 2) (1, 0, 0) =
          Inr (PGSymmetry W (Some (vec_add (0, 0, 2) (matvec (mat_sub eye3 W) (1, 0, 0))))) \<and>
        screw 90 (0, 0, 2) (0, 0, 0) = Inr (PGSymmetry W (Some (0, 0, 2)))"
proof -
  have ne: "((0, 0, 2) :: vec3) \<noteq> (0, 0, 0)" by simp
  from screw_translation [OF ne, of 90 "(1, 0, 0)"] show ?thesis .
qed

text \<open>
  C9. When \<open>angle / 360\<close> itself passes the near-integer test, \<open>screw_group\<close> returns the
  group with the single element \<open>Identity\<close>: the test comes before the first append.
  With a tolerance that is not negative this is the case for the angles 0 and 360.
\<close>

theorem screw_group_trivial:
  "(approx (angle / 360) \<longrightarrow>
      screw_group approx angle transl origin =
        Some (Inr \<lparr>elems = [Identity], ndim = 3\<rparr>)) \<and>
   (0 \<le> atol \<longrightarrow>
      screw_group (is_approx_int_tol atol) 0 transl origin =
        Some (Inr \<lparr>elems = [Identity], ndim = 3\<rparr>) \<and>
      screw_group (is_approx_int_tol atol) 360 transl origin =
        Some (Inr \<lparr>elems = [Identity], ndim = 3\<rparr>))"
proof -
  have first: "screw_group approx angle transl origin =
      Some (Inr \<lparr>elems = [Identity], ndim = 3\<rparr>)"
    if "approx (angle / 360)" for approx angle
    using that by (simp add: screw_group_def screw_loop.simps)
  have "is_approx_int_tol atol (0 / 360)" "is_approx_int_tol atol (360 / 360)"
    if "0 \<le> atol"
    using that is_approx_int_tol_int [of atol 0] is_approx_int_tol_int [of atol 1]
    by simp_all
  with first show ?thesis by blast
qed

theorem screw_group_trivial_witness:
  "screw_group (is_approx_int_tol (1 / 10 ^ 8)) 720 (0, 0, 1) (0, 0, 0) =
     Some (Inr \<lparr>elems = [Identity], ndim = 3\<rparr>) \<and>
   screw_group (is_approx_int_tol (1 / 10 ^ 8)) 0 (0, 0, 0) (0, 0, 0) =
     Some (Inr \<lparr>elems = [Identity], ndim = 3\<rparr>) \<and>
   screw_group (is_approx_int_tol (1 / 10 ^ 8)) 360 (0, 0, 1) (0, 0, 0) =
     Some (Inr \<lparr>elems = [Identity], ndim = 3\<rparr>)"
proof -
  have a: "is_approx_int_tol (1 / 10 ^ 8) (720 / 360)" by (simp add: is_approx_int_tol_def)
  have b: "(0::real) \<le> 1 / 10 ^ 8" by simp
  from screw_group_trivial
    [of "is_approx_int_tol (1 / 10 ^ 8)" 720 "(0, 0, 1)" "(0, 0, 0)" "1 / 10 ^ 8"]
    screw_group_trivial
    [of "is_approx_int_tol (1 / 10 ^ 8)" 720 "(0, 0, 0)" "(0, 0, 0)" "1 / 10 ^ 8"] a b
  show ?thesis by blast
qed

text \<open>
  C10 (as amended). \<open>C\<close> does not validate \<open>n\<close>: for every \<open>n \<le> 1\<close>, zero and the
  negative numbers included, \<open>range(1, n)\<close> is empty, the division \<open>360 / n\<close> in the body
  of the comprehension is never evaluated, and the call returns the group with the
  single element \<open>Identity\<close>.
\<close>

theorem C_no_validation:
  "n \<le> 1 \<longrightarrow> C n axis = Inr \<lparr>elems = [Identity], ndim = 3\<rparr>"
  by (simp add: C_small)

theorem C_no_validation_witness:
  "C 0 (1, 0, 0) = Inr \<lparr>elems = [Identity], ndim = 3\<rparr> \<and>
   C (- 3) (0, 0, 1) = Inr \<lparr>elems = [Identity], ndim = 3\<rparr> \<and>
   C 1 (0, 1, 0) = Inr \<lparr>elems = [Identity], ndim = 3\<rparr>"
proof -
  have "(0 :: int) \<le> 1" "(- 3 :: int) \<le> 1" "(1 :: int) \<le> 1" by simp_all
  with C_no_validation [of 0 "(1, 0, 0)"] C_no_validation [of "- 3" "(0, 0, 1)"]
    C_no_validation [of 1 "(0, 1, 0)"]
  show ?thesis by blast
qed

text \<open>
  C10, the claim as stated, fails at \<open>n = 0\<close>: the call does not raise a division by
  zero, it returns the group with the single element \<open>Identity\<close>.
\<close>

theorem C_zero_counterexample:
  "C 0 (0, 0, 1) = Inr \<lparr>elems = [Identity], ndim = 3\<rparr>"
  by (simp add: C_def range_py_def)


end
